theory Spec2Isabelle
  imports Main "HOL-Library.Char_ord" "HOL-Library.List_Lexorder" "HOL-Library.Sublist"
begin

section \<open>Exceptions\<close>

text \<open>
  Python exceptions are values. \<open>MigrationError\<close> is the class of the source; it carries
  its message and the exception it was raised \<^verbatim>\<open>from\<close> (\<open>None\<close> when
  it was raised without a cause). The errors of the database driver are kept apart by kind;
  \<open>PyException\<close> is any other \<^verbatim>\<open>Exception\<close>, as a migration procedure
  may raise. \<open>str\<close> is Python's \<^verbatim>\<open>str(e)\<close>: the message.
\<close>

datatype exn =
    TransactionException string
  | CatalogException string
  | ConstraintException string
  | PyException string
  | MigrationError string "exn option"

fun str :: "exn \<Rightarrow> string" where
  "str (TransactionException s) = s"
| "str (CatalogException s) = s"
| "str (ConstraintException s) = s"
| "str (PyException s) = s"
| "str (MigrationError s _) = s"

section \<open>Migrations and the database connection\<close>

text \<open>
  Modelled from the spec: the class \<^verbatim>\<open>Migration\<close> (imported from
  \<^verbatim>\<open>migrations.types\<close>) is not among the source files. The spec gives it an
  \<^verbatim>\<open>id\<close>, a string compared lexicographically, and a procedure
  \<^verbatim>\<open>run\<close> that performs schema or data changes through the connection and
  either completes or raises. The procedure acts on the part of the database that belongs to
  migrations (type \<open>'u\<close>, left open); the record table is written by the engine alone and
  transaction control is the engine's. A procedure that raises returns the state it had
  reached, so a partial effect is visible until it is rolled back. The field
  \<^verbatim>\<open>id\<close> is \<open>mid\<close> here, \<open>id\<close> being the identity function of HOL.
\<close>

type_synonym migration_id = string

record 'u migration =
  mid :: migration_id
  run :: "'u \<Rightarrow> exn option \<times> 'u"

text \<open>
  The database holds the migrations' own schema and data and the table
  \<^verbatim>\<open>_migrations\<close>: \<open>None\<close> while the table does not exist, otherwise the
  values of its \<^verbatim>\<open>id\<close> column in insertion order. The column
  \<^verbatim>\<open>applied_at\<close> is filled by the store's clock and read by no operation of the
  engine; it is left out.
\<close>

record 'u database =
  user :: 'u
  migrations_table :: "migration_id list option"

definition rows_of :: "'u database \<Rightarrow> migration_id list" where
  "rows_of d = (case migrations_table d of None \<Rightarrow> [] | Some rows \<Rightarrow> rows)"

text \<open>
  The calls the engine makes, in the order it makes them. The trace is a ghost field: no
  operation reads it, and a rollback does not undo it.
\<close>

datatype event =
    Begin
  | Commit
  | Rollback
  | CreateTableIfNotExists
  | SelectIds
  | InsertId migration_id
  | Run migration_id

text \<open>
  Modelled from the spec: the connection (\<^verbatim>\<open>DuckDBPyConnection\<close>) is an external
  collaborator with the capabilities execute, begin, commit and rollback. \<open>db\<close> is the
  state that statements see and change; \<open>txn\<close> is \<open>None\<close> in autocommit mode and
  otherwise the state at the \<^verbatim>\<open>begin()\<close> of the open transaction, which a
  rollback restores. The definitions up to \<open>call_run\<close> are the calls the service makes
  on it: \<^verbatim>\<open>begin()\<close> raises inside a transaction,
  \<^verbatim>\<open>commit()\<close> and \<^verbatim>\<open>rollback()\<close> raise outside one, and each of
  the three statements of the source is executed on \<open>db\<close>. Every call is appended to
  the trace, whether it raises or not.
\<close>

record 'u connection =
  db :: "'u database"
  txn :: "'u database option"
  trace :: "event list"

definition called :: "event \<Rightarrow> 'u connection \<Rightarrow> 'u connection" where
  "called e c = c\<lparr>trace := trace c @ [e]\<rparr>"

definition con_begin :: "'u connection \<Rightarrow> (exn + unit) \<times> 'u connection" where
  "con_begin c =
     (case txn c of
        Some _ \<Rightarrow>
          (Inl (TransactionException ''cannot start a transaction within a transaction''),
           called Begin c)
      | None \<Rightarrow> (Inr (), called Begin (c\<lparr>txn := Some (db c)\<rparr>)))"

definition con_commit :: "'u connection \<Rightarrow> (exn + unit) \<times> 'u connection" where
  "con_commit c =
     (case txn c of
        None \<Rightarrow>
          (Inl (TransactionException ''cannot commit - no transaction is active''),
           called Commit c)
      | Some _ \<Rightarrow> (Inr (), called Commit (c\<lparr>txn := None\<rparr>)))"

definition con_rollback :: "'u connection \<Rightarrow> (exn + unit) \<times> 'u connection" where
  "con_rollback c =
     (case txn c of
        None \<Rightarrow>
          (Inl (TransactionException ''cannot rollback - no transaction is active''),
           called Rollback c)
      | Some s \<Rightarrow> (Inr (), called Rollback (c\<lparr>db := s, txn := None\<rparr>)))"

text \<open>\<^verbatim>\<open>CREATE TABLE IF NOT EXISTS _migrations (...)\<close>\<close>

definition execute_create_table :: "'u connection \<Rightarrow> (exn + unit) \<times> 'u connection" where
  "execute_create_table c =
     (case migrations_table (db c) of
        None \<Rightarrow> (Inr (), called CreateTableIfNotExists (c\<lparr>db := (db c)\<lparr>migrations_table := Some []\<rparr>\<rparr>))
      | Some _ \<Rightarrow> (Inr (), called CreateTableIfNotExists c))"

text \<open>\<^verbatim>\<open>SELECT id FROM _migrations ORDER BY id\<close>, then \<^verbatim>\<open>fetchall()\<close>\<close>

definition execute_select_ids ::
  "'u connection \<Rightarrow> (exn + migration_id list) \<times> 'u connection" where
  "execute_select_ids c =
     (case migrations_table (db c) of
        None \<Rightarrow>
          (Inl (CatalogException ''Table with name _migrations does not exist''),
           called SelectIds c)
      | Some rows \<Rightarrow> (Inr (sort rows), called SelectIds c))"

text \<open>
  \<^verbatim>\<open>INSERT INTO _migrations (id) VALUES (?)\<close>: the column is the primary key, so a
  value already in the table is refused.
\<close>

definition execute_insert_id ::
  "migration_id \<Rightarrow> 'u connection \<Rightarrow> (exn + unit) \<times> 'u connection" where
  "execute_insert_id i c =
     (case migrations_table (db c) of
        None \<Rightarrow>
          (Inl (CatalogException ''Table with name _migrations does not exist''),
           called (InsertId i) c)
      | Some rows \<Rightarrow>
          if i \<in> set rows
          then (Inl (ConstraintException (''Duplicate key '' @ i @ '' violates primary key constraint'')),
                called (InsertId i) c)
          else (Inr (),
                called (InsertId i) (c\<lparr>db := (db c)\<lparr>migrations_table := Some (rows @ [i])\<rparr>\<rparr>)))"

text \<open>\<^verbatim>\<open>migration.run(self.con)\<close>\<close>

definition call_run :: "'u migration \<Rightarrow> 'u connection \<Rightarrow> (exn + unit) \<times> 'u connection" where
  "call_run m c =
     (case run m (user (db c)) of
        (Some e, u) \<Rightarrow> (Inl e, called (Run (mid m)) (c\<lparr>db := (db c)\<lparr>user := u\<rparr>\<rparr>))
      | (None, u) \<Rightarrow> (Inr (), called (Run (mid m)) (c\<lparr>db := (db c)\<lparr>user := u\<rparr>\<rparr>)))"

section \<open>The migrations service\<close>

definition init_migrations_table :: "'u connection \<Rightarrow> (exn + unit) \<times> 'u connection" where
  "init_migrations_table c = execute_create_table c"

definition get_applied_migrations ::
  "'u connection \<Rightarrow> (exn + migration_id list) \<times> 'u connection" where
  "get_applied_migrations c = execute_select_ids c"

definition validate_migration_order ::
  "'u migration list \<Rightarrow> migration_id set \<Rightarrow> exn + unit" where
  "validate_migration_order migrations applied =
     (if applied = {} then Inr ()
      else
        let max_applied = Max applied;
            new_migrations = filter (\<lambda>m. mid m \<notin> applied) migrations
        in if list_ex (\<lambda>m. mid m < max_applied) new_migrations
           then Inl (MigrationError
                  (''Found new migration(s) with ID lower than latest applied migration ''
                     @ max_applied) None)
           else Inr ())"

text \<open>
  The \<^verbatim>\<open>except Exception as e\<close> clause of \<^verbatim>\<open>apply_migration\<close>: roll
  back, then raise \<open>MigrationError\<close> from \<open>e\<close>. When the rollback itself raises, its
  exception is the one that leaves the handler.
\<close>

definition apply_failed ::
  "'u migration \<Rightarrow> exn \<Rightarrow> 'u connection \<Rightarrow> (exn + unit) \<times> 'u connection" where
  "apply_failed m e c =
     (case con_rollback c of
        (Inl e', c') \<Rightarrow> (Inl e', c')
      | (Inr _, c') \<Rightarrow>
          (Inl (MigrationError (''Migration '' @ mid m @ '' failed: '' @ str e) (Some e)), c'))"

definition apply_migration ::
  "'u migration \<Rightarrow> 'u connection \<Rightarrow> (exn + unit) \<times> 'u connection" where
  "apply_migration m c =
     (case con_begin c of
        (Inl e, c1) \<Rightarrow> apply_failed m e c1
      | (Inr _, c1) \<Rightarrow>
          (case call_run m c1 of
             (Inl e, c2) \<Rightarrow> apply_failed m e c2
           | (Inr _, c2) \<Rightarrow>
               (case execute_insert_id (mid m) c2 of
                  (Inl e, c3) \<Rightarrow> apply_failed m e c3
                | (Inr _, c3) \<Rightarrow>
                    (case con_commit c3 of
                       (Inl e, c4) \<Rightarrow> apply_failed m e c4
                     | (Inr _, c4) \<Rightarrow> (Inr (), c4)))))"

text \<open>
  The loop of \<^verbatim>\<open>run_migrations\<close> over the sorted collection: a migration whose
  id is in \<open>applied\<close> is skipped, any other is applied, and the first exception ends the
  loop.
\<close>

fun apply_each ::
  "migration_id set \<Rightarrow> 'u migration list \<Rightarrow> 'u connection \<Rightarrow> (exn + unit) \<times> 'u connection" where
  "apply_each applied [] c = (Inr (), c)"
| "apply_each applied (m # ms) c =
     (if mid m \<notin> applied
      then (case apply_migration m c of
              (Inl e, c') \<Rightarrow> (Inl e, c')
            | (Inr _, c') \<Rightarrow> apply_each applied ms c')
      else apply_each applied ms c)"

text \<open>The body of the \<^verbatim>\<open>try\<close> block of \<^verbatim>\<open>run_migrations\<close>.\<close>

definition run_migrations_try ::
  "'u migration list \<Rightarrow> 'u connection \<Rightarrow> (exn + unit) \<times> 'u connection" where
  "run_migrations_try migrations c =
     (case init_migrations_table c of
        (Inl e, c1) \<Rightarrow> (Inl e, c1)
      | (Inr _, c1) \<Rightarrow>
          (case get_applied_migrations c1 of
             (Inl e, c2) \<Rightarrow> (Inl e, c2)
           | (Inr ids, c2) \<Rightarrow>
               (let applied = set ids
                in case validate_migration_order migrations applied of
                     Inl e \<Rightarrow> (Inl e, c2)
                   | Inr _ \<Rightarrow> apply_each applied (sort_key mid migrations) c2)))"

definition run_migrations ::
  "'u migration list \<Rightarrow> 'u connection \<Rightarrow> (exn + unit) \<times> 'u connection" where
  "run_migrations migrations c =
     (case run_migrations_try migrations c of
        (Inl e, c') \<Rightarrow> (Inl (MigrationError ''Failed to run migrations'' (Some e)), c')
      | (Inr _, c') \<Rightarrow> (Inr (), c'))"

section \<open>Vocabulary of the statements\<close>

text \<open>
  What the theorems below observe of a run. None of these definitions is part of the
  program: they name the error values it builds and read the ghost trace.
\<close>


text \<open>The store initialised \<open>n\<close> times in a row.\<close>

fun init_times :: "nat \<Rightarrow> 'u connection \<Rightarrow> 'u connection" where
  "init_times 0 c = c"
| "init_times (Suc n) c = snd (init_migrations_table (init_times n c))"

text \<open>The migrations of a collection that the loop does not skip.\<close>

definition pending :: "migration_id set \<Rightarrow> 'u migration list \<Rightarrow> 'u migration list" where
  "pending applied ms = filter (\<lambda>m. mid m \<notin> applied) ms"

text \<open>The state the procedures of \<open>ms\<close> leave when run one after the other, and whether
  each of them completes on the state it finds.\<close>

definition effects :: "'u migration list \<Rightarrow> 'u \<Rightarrow> 'u" where
  "effects ms u = fold (\<lambda>m v. snd (run m v)) ms u"

fun all_complete :: "'u migration list \<Rightarrow> 'u \<Rightarrow> bool" where
  "all_complete [] u = True"
| "all_complete (m # ms) u = (fst (run m u) = None \<and> all_complete ms (snd (run m u)))"

text \<open>The ids whose procedure was invoked, and the ids whose insert was followed at once
  by a commit, both in the order of the trace.\<close>

fun invoked :: "event list \<Rightarrow> migration_id list" where
  "invoked [] = []"
| "invoked (Run i # es) = i # invoked es"
| "invoked (e # es) = invoked es"

fun committed :: "event list \<Rightarrow> migration_id list" where
  "committed [] = []"
| "committed (InsertId i # Commit # es) = i # committed es"
| "committed (e # es) = committed es"

definition applied_trace :: "'u migration \<Rightarrow> event list" where
  "applied_trace m = [Begin, Run (mid m), InsertId (mid m), Commit]"

definition apply_failure :: "migration_id \<Rightarrow> exn \<Rightarrow> exn" where
  "apply_failure i cause =
     MigrationError (''Migration '' @ i @ '' failed: '' @ str cause) (Some cause)"

definition run_failure :: "exn \<Rightarrow> exn" where
  "run_failure e = MigrationError ''Failed to run migrations'' (Some e)"

definition order_violation :: "migration_id \<Rightarrow> exn" where
  "order_violation max_applied =
     MigrationError
       (''Found new migration(s) with ID lower than latest applied migration '' @ max_applied)
       None"

definition duplicate_key :: "migration_id \<Rightarrow> exn" where
  "duplicate_key i =
     ConstraintException (''Duplicate key '' @ i @ '' violates primary key constraint'')"

definition no_table :: exn where
  "no_table = CatalogException ''Table with name _migrations does not exist''"

text \<open>
  How the application of \<open>m\<close> ends when it does not commit, on a connection in autocommit
  mode whose record table holds \<open>rows\<close> and whose migration state is \<open>u\<close>: the procedure
  raises \<open>cause\<close>, or it completes and the insert of its id is refused as a duplicate.
  \<open>es\<close> are the calls made.
\<close>

definition stopped ::
  "'u migration \<Rightarrow> 'u \<Rightarrow> migration_id list \<Rightarrow> exn \<Rightarrow> event list \<Rightarrow> bool" where
  "stopped m u rows cause es =
     (case fst (run m u) of
        Some e \<Rightarrow> cause = e \<and> es = [Begin, Run (mid m), Rollback]
      | None \<Rightarrow> mid m \<in> set rows \<and> cause = duplicate_key (mid m) \<and>
                es = [Begin, Run (mid m), InsertId (mid m), Rollback])"

text \<open>The connection once the record table is ensured and the applied ids are read.\<close>

definition prepared :: "'u connection \<Rightarrow> 'u connection" where
  "prepared c = c\<lparr>db := \<lparr>user = user (db c), migrations_table = Some (rows_of (db c))\<rparr>,
                  trace := trace c @ [CreateTableIfNotExists, SelectIds]\<rparr>"

section \<open>Example inputs\<close>

text \<open>
  The migrations of the repository's tests, over a database whose migration state is the
  list of the tables created so far.
\<close>

definition create_table :: "string \<Rightarrow> string list \<Rightarrow> exn option \<times> string list" where
  "create_table t u =
     (if t \<in> set u
      then (Some (CatalogException (''Table with name '' @ t @ '' already exists'')), u)
      else (None, u @ [t]))"

definition fresh_connection :: "string list connection" where
  "fresh_connection = \<lparr>db = \<lparr>user = [], migrations_table = None\<rparr>, txn = None, trace = []\<rparr>"

definition store_ready :: "string list connection" where
  "store_ready = \<lparr>db = \<lparr>user = [], migrations_table = Some []\<rparr>, txn = None, trace = []\<rparr>"

definition create_test1 :: "string list migration" where
  "create_test1 = \<lparr>mid = ''20240320000001'', run = create_table ''test1''\<rparr>"

definition raise_exception :: "string list migration" where
  "raise_exception =
     \<lparr>mid = ''20240320000002'', run = (\<lambda>u. (Some (PyException ''Migration failed''), u))\<rparr>"

definition create_test3 :: "string list migration" where
  "create_test3 = \<lparr>mid = ''20240320000003'', run = create_table ''test3''\<rparr>"

definition create_twice :: "string list migration" where
  "create_twice =
     \<lparr>mid = ''20240320000001'',
      run = (\<lambda>u. case create_table ''test_table'' u of
                   (None, u') \<Rightarrow> create_table ''test_table'' u'
                 | (Some e, u') \<Rightarrow> (Some e, u'))\<rparr>"

definition second_recorded :: "string list connection" where
  "second_recorded =
     \<lparr>db = \<lparr>user = [''test2''], migrations_table = Some [''20240320000002'']\<rparr>,
      txn = None, trace = []\<rparr>"

definition create_test2 :: "string list migration" where
  "create_test2 = \<lparr>mid = ''20240320000002'', run = create_table ''test2''\<rparr>"

definition first_recorded :: "string list connection" where
  "first_recorded =
     \<lparr>db = \<lparr>user = [''test1''], migrations_table = Some [''20240320000001'']\<rparr>,
      txn = None, trace = []\<rparr>"

definition create_other :: "string list migration" where
  "create_other = \<lparr>mid = ''20240320000001'', run = create_table ''other''\<rparr>"

section \<open>One application\<close>

text \<open>The four ways an application can end on a connection in autocommit mode, and the one
  way on a connection that already has a transaction open.\<close>

lemma apply_migration_run_raises:
  assumes "txn c = None" "run m (user (db c)) = (Some e, u)"
  shows "apply_migration m c =
    (Inl (apply_failure (mid m) e), c\<lparr>trace := trace c @ [Begin, Run (mid m), Rollback]\<rparr>)"
  using assms
  by (simp add: apply_migration_def con_begin_def call_run_def apply_failed_def
      con_rollback_def called_def apply_failure_def)

lemma apply_migration_no_table:
  assumes "txn c = None" "run m (user (db c)) = (None, u)" "migrations_table (db c) = None"
  shows "apply_migration m c =
    (Inl (apply_failure (mid m) no_table),
     c\<lparr>trace := trace c @ [Begin, Run (mid m), InsertId (mid m), Rollback]\<rparr>)"
  using assms
  by (simp add: apply_migration_def con_begin_def call_run_def apply_failed_def
      execute_insert_id_def con_rollback_def called_def apply_failure_def no_table_def)

lemma apply_migration_duplicate:
  assumes "txn c = None" "run m (user (db c)) = (None, u)"
    "migrations_table (db c) = Some rows" "mid m \<in> set rows"
  shows "apply_migration m c =
    (Inl (apply_failure (mid m) (duplicate_key (mid m))),
     c\<lparr>trace := trace c @ [Begin, Run (mid m), InsertId (mid m), Rollback]\<rparr>)"
  using assms
  by (simp add: apply_migration_def con_begin_def call_run_def apply_failed_def
      execute_insert_id_def con_rollback_def called_def apply_failure_def duplicate_key_def)

lemma apply_migration_commits:
  assumes "txn c = None" "run m (user (db c)) = (None, u)"
    "migrations_table (db c) = Some rows" "mid m \<notin> set rows"
  shows "apply_migration m c =
    (Inr (),
     c\<lparr>db := \<lparr>user = u, migrations_table = Some (rows @ [mid m])\<rparr>,
       trace := trace c @ applied_trace m\<rparr>)"
  using assms
  by (simp add: apply_migration_def con_begin_def call_run_def apply_failed_def
      execute_insert_id_def con_commit_def called_def applied_trace_def)

lemma apply_migration_in_transaction:
  assumes "txn c = Some s"
  shows "apply_migration m c =
    (Inl (apply_failure (mid m) (TransactionException ''cannot start a transaction within a transaction'')),
     c\<lparr>db := s, txn := None, trace := trace c @ [Begin, Rollback]\<rparr>)"
  using assms
  by (simp add: apply_migration_def con_begin_def apply_failed_def
      con_rollback_def called_def apply_failure_def)

section \<open>The loop over the pending migrations\<close>

text \<open>
  The loop applies a leading part \<open>good\<close> of the pending migrations, each in a transaction
  of its own that commits, and then either has none left or stops at the next one. The
  lemma fixes the result, the database, the transaction state and the trace in both cases;
  the claims about a run are read off from it.
\<close>

lemma database_eqI:
  "user d = u \<Longrightarrow> migrations_table d = t \<Longrightarrow> (d :: 'u database) = \<lparr>user = u, migrations_table = t\<rparr>"
  by (cases d) simp

lemma effects_Nil: "effects [] u = u"
  by (simp add: effects_def)

lemma effects_Cons: "effects (m # ms) u = effects ms (snd (run m u))"
  by (simp add: effects_def)

lemma pending_Cons:
  "pending applied (m # ms) = (if mid m \<notin> applied then m # pending applied ms else pending applied ms)"
  by (simp add: pending_def)

lemma apply_each_outcome:
  assumes "txn c = None" and "migrations_table (db c) = Some rows"
    and "apply_each applied ms c = (r, c')"
  shows "\<exists>good rest es. pending applied ms = good @ rest \<and>
      all_complete good (user (db c)) \<and>
      distinct (map mid good) \<and> set (map mid good) \<inter> set rows = {} \<and>
      txn c' = None \<and>
      db c' = \<lparr>user = effects good (user (db c)),
               migrations_table = Some (rows @ map mid good)\<rparr> \<and>
      trace c' = trace c @ concat (map applied_trace good) @ es \<and>
      (case rest of
         [] \<Rightarrow> r = Inr () \<and> es = []
       | m # later \<Rightarrow> \<exists>cause. r = Inl (apply_failure (mid m) cause) \<and>
           stopped m (effects good (user (db c))) (rows @ map mid good) cause es)"
  using assms
proof (induction ms arbitrary: c rows)
  case Nil
  have "db c = \<lparr>user = user (db c), migrations_table = Some rows\<rparr>"
    using Nil.prems(2) by (intro database_eqI) simp_all
  with Nil.prems show ?case
    by (intro exI [of _ "[]"]) (simp add: pending_def effects_Nil)
next
  case (Cons m ms)
  show ?case
  proof (cases "mid m \<in> applied")
    case True
    with Cons.prems have "apply_each applied ms c = (r, c')" by simp
    from Cons.IH [OF Cons.prems(1,2) this] True show ?thesis
      by (simp add: pending_Cons)
  next
    case fresh: False
    obtain eo u where ru: "run m (user (db c)) = (eo, u)"
      by (cases "run m (user (db c))") auto
    have dbc: "db c = \<lparr>user = user (db c), migrations_table = Some rows\<rparr>"
      using Cons.prems(2) by (intro database_eqI) simp_all
    have stop: "?thesis"
      if res: "r = Inl (apply_failure (mid m) cause)"
        and c': "c' = c\<lparr>trace := trace c @ es\<rparr>"
        and st: "stopped m (user (db c)) rows cause es" for cause es
      apply (rule exI [of _ "[]"])
      apply (rule exI [of _ "m # pending applied ms"])
      apply (rule exI [of _ es])
      using fresh res c' st Cons.prems(1) dbc
      by (auto simp: pending_Cons effects_Nil)
    show ?thesis
    proof (cases eo)
      case (Some e)
      with ru have "apply_migration m c =
          (Inl (apply_failure (mid m) e), c\<lparr>trace := trace c @ [Begin, Run (mid m), Rollback]\<rparr>)"
        using apply_migration_run_raises [OF Cons.prems(1)] by simp
      with Cons.prems(3) fresh have "r = Inl (apply_failure (mid m) e)"
        and "c' = c\<lparr>trace := trace c @ [Begin, Run (mid m), Rollback]\<rparr>"
        by simp_all
      moreover have "stopped m (user (db c)) rows e [Begin, Run (mid m), Rollback]"
        using ru Some by (simp add: stopped_def)
      ultimately show ?thesis by (rule stop)
    next
      case None
      show ?thesis
      proof (cases "mid m \<in> set rows")
        case True
        with ru None have "apply_migration m c =
          (Inl (apply_failure (mid m) (duplicate_key (mid m))),
           c\<lparr>trace := trace c @ [Begin, Run (mid m), InsertId (mid m), Rollback]\<rparr>)"
          using apply_migration_duplicate [OF Cons.prems(1) _ Cons.prems(2)] by simp
        with Cons.prems(3) fresh have "r = Inl (apply_failure (mid m) (duplicate_key (mid m)))"
          and "c' = c\<lparr>trace := trace c @ [Begin, Run (mid m), InsertId (mid m), Rollback]\<rparr>"
          by simp_all
        moreover have "stopped m (user (db c)) rows (duplicate_key (mid m))
            [Begin, Run (mid m), InsertId (mid m), Rollback]"
          using ru None True by (simp add: stopped_def)
        ultimately show ?thesis by (rule stop)
      next
        case False
        define c1 where "c1 = c\<lparr>db := \<lparr>user = u, migrations_table = Some (rows @ [mid m])\<rparr>,
            trace := trace c @ applied_trace m\<rparr>"
        have am: "apply_migration m c = (Inr (), c1)"
          using apply_migration_commits [OF Cons.prems(1) _ Cons.prems(2) False] ru None
          by (simp add: c1_def)
        with Cons.prems(3) fresh have rest: "apply_each applied ms c1 = (r, c')" by simp
        have t1: "txn c1 = None" using Cons.prems(1) by (simp add: c1_def)
        have m1: "migrations_table (db c1) = Some (rows @ [mid m])" by (simp add: c1_def)
        from Cons.IH [OF t1 m1 rest] obtain good rest es where
          p: "pending applied ms = good @ rest"
          and ac: "all_complete good (user (db c1))"
          and d: "distinct (map mid good)"
          and dj: "set (map mid good) \<inter> set (rows @ [mid m]) = {}"
          and tx: "txn c' = None"
          and db': "db c' = \<lparr>user = effects good (user (db c1)),
               migrations_table = Some ((rows @ [mid m]) @ map mid good)\<rparr>"
          and tr: "trace c' = trace c1 @ concat (map applied_trace good) @ es"
          and rs: "(case rest of
               [] \<Rightarrow> r = Inr () \<and> es = []
             | m' # later \<Rightarrow> \<exists>cause. r = Inl (apply_failure (mid m') cause) \<and>
                 stopped m' (effects good (user (db c1))) ((rows @ [mid m]) @ map mid good) cause es)"
          by blast
        have u1: "user (db c1) = u" by (simp add: c1_def)
        have su: "snd (run m (user (db c))) = u" using ru by simp
        show ?thesis
          apply (rule exI [of _ "m # good"])
          apply (rule exI [of _ rest])
          apply (rule exI [of _ es])
          using fresh False p ac d dj tx db' tr rs ru None u1 su
          by (auto simp: pending_Cons effects_Cons c1_def split: list.splits)
      qed
    qed
  qed
qed

section \<open>A whole run\<close>

text \<open>
  Before the loop a run ensures the table and reads the ids; it then either rejects the
  collection, and the connection is \<open>prepared c\<close>, or enters the loop on \<open>prepared c\<close>.
\<close>

lemma prepared_absent:
  assumes "migrations_table (db c) = None"
  shows "prepared c = c\<lparr>db := (db c)\<lparr>migrations_table := Some []\<rparr>,
                      trace := trace c @ [CreateTableIfNotExists, SelectIds]\<rparr>"
proof -
  have "(db c)\<lparr>migrations_table := Some []\<rparr> = \<lparr>user = user (db c), migrations_table = Some []\<rparr>"
    by (intro database_eqI) simp_all
  with assms show ?thesis
    by (simp add: prepared_def rows_of_def)
qed

lemma prepared_present:
  assumes "migrations_table (db c) = Some rows"
  shows "prepared c = c\<lparr>trace := trace c @ [CreateTableIfNotExists, SelectIds]\<rparr>"
proof -
  have "db c = \<lparr>user = user (db c), migrations_table = Some rows\<rparr>"
    using assms by (intro database_eqI) simp_all
  with assms show ?thesis
    by (simp add: prepared_def rows_of_def)
qed

lemma run_migrations_try_prepared:
  "run_migrations_try ms c =
     (case validate_migration_order ms (set (rows_of (db c))) of
        Inl e \<Rightarrow> (Inl e, prepared c)
      | Inr _ \<Rightarrow> apply_each (set (rows_of (db c))) (sort_key mid ms) (prepared c))"
proof (cases "migrations_table (db c)")
  case None
  then show ?thesis
    by (simp add: prepared_absent run_migrations_try_def init_migrations_table_def
        get_applied_migrations_def execute_create_table_def execute_select_ids_def called_def
        rows_of_def Let_def cong: sum.case_cong)
next
  case (Some rows)
  then show ?thesis
    by (simp add: prepared_present run_migrations_try_def init_migrations_table_def
        get_applied_migrations_def execute_create_table_def execute_select_ids_def called_def
        rows_of_def Let_def cong: sum.case_cong)
qed

lemma prepared_simps:
  "txn (prepared c) = txn c"
  "user (db (prepared c)) = user (db c)"
  "migrations_table (db (prepared c)) = Some (rows_of (db c))"
  "trace (prepared c) = trace c @ [CreateTableIfNotExists, SelectIds]"
  by (simp_all add: prepared_def)

lemma run_migrations_outcome:
  assumes "txn c = None"
    and "validate_migration_order ms (set (rows_of (db c))) = Inr ()"
    and "run_migrations ms c = (r, c')"
  shows "\<exists>good rest es.
      pending (set (rows_of (db c))) (sort_key mid ms) = good @ rest \<and>
      all_complete good (user (db c)) \<and>
      distinct (map mid good) \<and> set (map mid good) \<inter> set (rows_of (db c)) = {} \<and>
      txn c' = None \<and>
      db c' = \<lparr>user = effects good (user (db c)),
               migrations_table = Some (rows_of (db c) @ map mid good)\<rparr> \<and>
      trace c' = trace c @ [CreateTableIfNotExists, SelectIds]
                   @ concat (map applied_trace good) @ es \<and>
      (case rest of
         [] \<Rightarrow> r = Inr () \<and> es = []
       | m # later \<Rightarrow> \<exists>cause. r = Inl (run_failure (apply_failure (mid m) cause)) \<and>
           stopped m (effects good (user (db c))) (rows_of (db c) @ map mid good) cause es)"
proof -
  obtain r0 where r0: "apply_each (set (rows_of (db c))) (sort_key mid ms) (prepared c) = (r0, c')"
    and r: "r = (case r0 of Inl e \<Rightarrow> Inl (run_failure e) | Inr _ \<Rightarrow> Inr ())"
    using assms(2,3)
    by (auto simp: run_migrations_def run_migrations_try_prepared run_failure_def
        split: prod.splits sum.splits)
  have t: "txn (prepared c) = None" using assms(1) by (simp add: prepared_simps)
  from apply_each_outcome [OF t prepared_simps(3) r0] obtain good rest es where
    o: "pending (set (rows_of (db c))) (sort_key mid ms) = good @ rest"
      "all_complete good (user (db c))"
      "distinct (map mid good)" "set (map mid good) \<inter> set (rows_of (db c)) = {}"
      "txn c' = None"
      "db c' = \<lparr>user = effects good (user (db c)),
               migrations_table = Some (rows_of (db c) @ map mid good)\<rparr>"
      "trace c' = trace c @ [CreateTableIfNotExists, SelectIds]
                   @ concat (map applied_trace good) @ es"
    and rs: "(case rest of
         [] \<Rightarrow> r0 = Inr () \<and> es = []
       | m # later \<Rightarrow> \<exists>cause. r0 = Inl (apply_failure (mid m) cause) \<and>
           stopped m (effects good (user (db c))) (rows_of (db c) @ map mid good) cause es)"
    unfolding prepared_simps by auto
  have "(case rest of
         [] \<Rightarrow> r = Inr () \<and> es = []
       | m # later \<Rightarrow> \<exists>cause. r = Inl (run_failure (apply_failure (mid m) cause)) \<and>
           stopped m (effects good (user (db c))) (rows_of (db c) @ map mid good) cause es)"
    using rs r by (cases rest) auto
  with o show ?thesis by blast
qed

lemma run_migrations_rejected:
  assumes "validate_migration_order ms (set (rows_of (db c))) = Inl e"
  shows "run_migrations ms c = (Inl (run_failure e), c\<lparr>trace := trace c @ [CreateTableIfNotExists, SelectIds]\<rparr>)"
proof -
  from assms have "set (rows_of (db c)) \<noteq> {}"
    by (auto simp: validate_migration_order_def)
  then obtain rows where rows: "migrations_table (db c) = Some rows"
    by (cases "migrations_table (db c)") (auto simp: rows_of_def)
  then have "db c = \<lparr>user = user (db c), migrations_table = Some (rows_of (db c))\<rparr>"
    by (intro database_eqI) (simp_all add: rows_of_def)
  then have "prepared c = c\<lparr>trace := trace c @ [CreateTableIfNotExists, SelectIds]\<rparr>"
    by (simp add: prepared_def)
  with assms show ?thesis
    by (simp add: run_migrations_def run_migrations_try_prepared run_failure_def)
qed

section \<open>Traces and the order of the pending migrations\<close>

lemma invoked_append: "invoked (xs @ ys) = invoked xs @ invoked ys"
  by (induction xs rule: invoked.induct) simp_all

lemma invoked_applied_traces: "invoked (concat (map applied_trace good)) = map mid good"
  by (induction good) (simp_all add: applied_trace_def)

lemma committed_applied_traces:
  "committed (concat (map applied_trace good) @ es) = map mid good @ committed es"
  by (induction good) (simp_all add: applied_trace_def)

lemma stopped_trace:
  assumes "stopped m u rows cause es"
  shows "invoked es = [mid m]" and "committed es = []"
  using assms by (auto simp: stopped_def split: option.splits)

lemma sorted_pending:
  "sorted (map mid (pending applied (sort_key mid ms)))"
  unfolding pending_def by (intro sorted_filter sorted_sort_key)

lemma pending_not_applied: "m \<in> set (pending applied ms) \<Longrightarrow> mid m \<notin> applied \<and> m \<in> set ms"
  by (simp add: pending_def)

text \<open>
  The converse of the outcome lemma: migrations whose procedures complete under fresh,
  differing ids are stepped through, and a migration that stops ends the loop.
\<close>

lemma connection_eqI:
  "db x = d \<Longrightarrow> txn x = t \<Longrightarrow> trace x = es \<Longrightarrow>
   (x :: 'u connection) = \<lparr>db = d, txn = t, trace = es\<rparr>"
  by (cases x) simp

lemma apply_each_pending:
  "apply_each applied ms c = apply_each applied (pending applied ms) c"
  by (induction ms arbitrary: c) (auto simp: pending_def split: prod.splits sum.splits)

lemma apply_each_completes:
  assumes "txn c = None" and "migrations_table (db c) = Some rows"
    and "all_complete good (user (db c))" and "distinct (map mid good)"
    and "set (map mid good) \<inter> (set rows \<union> applied) = {}"
  shows "apply_each applied (good @ rest) c =
     apply_each applied rest
       (c\<lparr>db := \<lparr>user = effects good (user (db c)),
                  migrations_table = Some (rows @ map mid good)\<rparr>,
          trace := trace c @ concat (map applied_trace good)\<rparr>)"
  using assms
proof (induction good arbitrary: c rows)
  case Nil
  have "db c = \<lparr>user = user (db c), migrations_table = Some rows\<rparr>"
    using Nil.prems(2) by (intro database_eqI) simp_all
  then have "c\<lparr>db := \<lparr>user = user (db c), migrations_table = Some rows\<rparr>, trace := trace c\<rparr> = c"
    by simp
  then show ?case by (simp add: effects_Nil)
next
  case (Cons m good)
  obtain u where ru: "run m (user (db c)) = (None, u)"
    using Cons.prems(3) by (cases "run m (user (db c))") auto
  have fresh: "mid m \<notin> set rows" "mid m \<notin> applied"
    using Cons.prems(5) by auto
  define c1 where "c1 = c\<lparr>db := \<lparr>user = u, migrations_table = Some (rows @ [mid m])\<rparr>,
      trace := trace c @ applied_trace m\<rparr>"
  have am: "apply_migration m c = (Inr (), c1)"
    unfolding c1_def by (rule apply_migration_commits [OF Cons.prems(1) ru Cons.prems(2) fresh(1)])
  have t1: "txn c1 = None" using Cons.prems(1) by (simp add: c1_def)
  have m1: "migrations_table (db c1) = Some (rows @ [mid m])" by (simp add: c1_def)
  have a1: "all_complete good (user (db c1))"
    using Cons.prems(3) ru by (simp add: c1_def)
  have d1: "distinct (map mid good)" using Cons.prems(4) by simp
  have j1: "set (map mid good) \<inter> (set (rows @ [mid m]) \<union> applied) = {}"
    using Cons.prems(4,5) by auto
  have "apply_each applied ((m # good) @ rest) c = apply_each applied (good @ rest) c1"
    using am fresh(2) by simp
  also note Cons.IH [OF t1 m1 a1 d1 j1]
  also have "c1\<lparr>db := \<lparr>user = effects good (user (db c1)),
                  migrations_table = Some ((rows @ [mid m]) @ map mid good)\<rparr>,
          trace := trace c1 @ concat (map applied_trace good)\<rparr> =
      c\<lparr>db := \<lparr>user = effects (m # good) (user (db c)),
                  migrations_table = Some (rows @ map mid (m # good))\<rparr>,
          trace := trace c @ concat (map applied_trace (m # good))\<rparr>"
    using ru by (simp add: c1_def effects_Cons)
  finally show ?case .
qed

lemma apply_each_stops:
  assumes "txn c = None" and "migrations_table (db c) = Some rows" and "mid m \<notin> applied"
    and "stopped m (user (db c)) rows cause es"
  shows "apply_each applied (m # later) c =
     (Inl (apply_failure (mid m) cause), c\<lparr>trace := trace c @ es\<rparr>)"
proof -
  obtain eo u where ru: "run m (user (db c)) = (eo, u)"
    by (cases "run m (user (db c))") auto
  show ?thesis
  proof (cases eo)
    case (Some e)
    with ru assms(4) have "cause = e" "es = [Begin, Run (mid m), Rollback]"
      by (simp_all add: stopped_def)
    with apply_migration_run_raises [OF assms(1) ru [unfolded Some]] assms(3)
    show ?thesis by simp
  next
    case None
    with ru assms(4) have "mid m \<in> set rows" "cause = duplicate_key (mid m)"
      "es = [Begin, Run (mid m), InsertId (mid m), Rollback]"
      by (simp_all add: stopped_def)
    with apply_migration_duplicate [OF assms(1) ru [unfolded None] assms(2)] assms(3)
    show ?thesis by simp
  qed
qed

lemma run_migrations_stops:
  assumes "txn c = None"
    and "validate_migration_order ms (set (rows_of (db c))) = Inr ()"
    and "pending (set (rows_of (db c))) (sort_key mid ms) = good @ m # later"
    and "all_complete good (user (db c))" and "distinct (map mid good)"
    and "stopped m (effects good (user (db c))) (rows_of (db c) @ map mid good) cause es"
  shows "run_migrations ms c =
      (Inl (run_failure (apply_failure (mid m) cause)),
       \<lparr>db = \<lparr>user = effects good (user (db c)),
               migrations_table = Some (rows_of (db c) @ map mid good)\<rparr>,
        txn = None,
        trace = trace c @ [CreateTableIfNotExists, SelectIds]
                  @ concat (map applied_trace good) @ es\<rparr>)"
proof -
  let ?applied = "set (rows_of (db c))"
  let ?c2 = "prepared c"
  have t: "txn ?c2 = None" using assms(1) by (simp add: prepared_simps)
  have ids: "set (map mid good) \<inter> (set (rows_of (db c)) \<union> ?applied) = {}"
  proof -
    have "set good \<subseteq> set (pending ?applied (sort_key mid ms))"
      unfolding assms(3) by auto
    then show ?thesis by (auto dest: pending_not_applied)
  qed
  have mnew: "mid m \<notin> ?applied"
  proof -
    have "m \<in> set (pending ?applied (sort_key mid ms))"
      unfolding assms(3) by simp
    then show ?thesis by (auto dest: pending_not_applied)
  qed
  have ac: "all_complete good (user (db ?c2))"
    using assms(4) by (simp add: prepared_simps)
  define c3 where "c3 = ?c2\<lparr>db := \<lparr>user = effects good (user (db ?c2)),
                  migrations_table = Some (rows_of (db c) @ map mid good)\<rparr>,
          trace := trace ?c2 @ concat (map applied_trace good)\<rparr>"
  have t3: "txn c3 = None" using t by (simp add: c3_def)
  have m3: "migrations_table (db c3) = Some (rows_of (db c) @ map mid good)"
    by (simp add: c3_def)
  have s3: "stopped m (user (db c3)) (rows_of (db c) @ map mid good) cause es"
    using assms(6) by (simp add: c3_def prepared_simps)
  have "run_migrations_try ms c = apply_each ?applied (sort_key mid ms) ?c2"
    using assms(2) by (simp add: run_migrations_try_prepared)
  also have "\<dots> = apply_each ?applied (pending ?applied (sort_key mid ms)) ?c2"
    by (rule apply_each_pending)
  also have "\<dots> = apply_each ?applied (good @ m # later) ?c2"
    by (simp only: assms(3))
  also have "\<dots> = apply_each ?applied (m # later) c3"
    unfolding c3_def
    by (rule apply_each_completes [OF t prepared_simps(3) ac assms(5) ids])
  also have "\<dots> = (Inl (apply_failure (mid m) cause), c3\<lparr>trace := trace c3 @ es\<rparr>)"
    by (rule apply_each_stops [OF t3 m3 mnew s3])
  finally have tried: "run_migrations_try ms c =
      (Inl (apply_failure (mid m) cause), c3\<lparr>trace := trace c3 @ es\<rparr>)" .
  have "c3\<lparr>trace := trace c3 @ es\<rparr> =
      \<lparr>db = \<lparr>user = effects good (user (db c)),
               migrations_table = Some (rows_of (db c) @ map mid good)\<rparr>,
        txn = None,
        trace = trace c @ [CreateTableIfNotExists, SelectIds]
                  @ concat (map applied_trace good) @ es\<rparr>"
    using assms(1) by (intro connection_eqI) (simp_all add: c3_def prepared_simps)
  with tried show ?thesis
    by (simp add: run_migrations_def run_failure_def)
qed

text \<open>
  The sort is stable: among the pending migrations those that share an id keep the order
  they have in the collection.
\<close>

lemma filter_distinct_key:
  "distinct (map f xs) \<Longrightarrow> x \<in> set xs \<Longrightarrow> filter (\<lambda>y. f y = f x) xs = [x]"
proof (induction xs)
  case Nil
  then show ?case by simp
next
  case (Cons a xs)
  show ?case
  proof (cases "a = x")
    case True
    from Cons.prems(1) have "f a \<notin> f ` set xs" by simp
    then have "\<forall>y\<in>set xs. f y \<noteq> f x" unfolding True by (metis imageI)
    then have "filter (\<lambda>y. f y = f x) xs = []"
      by (simp add: filter_empty_conv)
    with True show ?thesis by simp
  next
    case False
    with Cons.prems have "x \<in> set xs" "f a \<noteq> f x" by auto
    with Cons.IH Cons.prems(1) show ?thesis by simp
  qed
qed

lemma filter_pending_id:
  assumes "i \<notin> applied"
  shows "filter (\<lambda>x. mid x = i) (pending applied (sort_key mid ms)) = filter (\<lambda>x. mid x = i) ms"
proof -
  have "filter (\<lambda>x. mid x = i) (pending applied (sort_key mid ms)) =
      filter (\<lambda>x. mid x = i) (sort_key mid ms)"
    unfolding pending_def filter_filter using assms by (intro filter_cong) auto
  then show ?thesis by (simp only: sort_key_stable)
qed

section \<open>Repeated runs\<close>






section \<open>Facts about the example inputs\<close>

lemma example_ids:
  "mid create_test1 = ''20240320000001''"
  "mid create_test2 = ''20240320000002''"
  "mid raise_exception = ''20240320000002''"
  "mid create_test3 = ''20240320000003''"
  "mid create_twice = ''20240320000001''"
  "mid create_other = ''20240320000001''"
  by (simp_all add: create_test1_def create_test2_def raise_exception_def create_test3_def
      create_twice_def create_other_def)

lemma fresh_connection_simps:
  "txn fresh_connection = None"
  "rows_of (db fresh_connection) = []"
  "user (db fresh_connection) = []"
  "trace fresh_connection = []"
  by (simp_all add: fresh_connection_def rows_of_def)

section \<open>Claims about one application\<close>

text \<open>
  C1. Take a connection in autocommit mode, so that \<^verbatim>\<open>begin()\<close> succeeds, and
  let the application of \<open>m\<close> fail after it: the procedure raises \<open>cause\<close>, or it completes
  and the insert of the id raises \<open>cause\<close>, because the id is already recorded or the table
  does not exist. Then \<^verbatim>\<open>apply_migration\<close> raises the \<open>MigrationError\<close> whose
  message names the id and whose cause is \<open>cause\<close>. The last call on the connection is the
  rollback, and the connection it leaves has the database it had before the call, with
  neither the effects of the procedure nor a new row, and no transaction open.
\<close>

theorem apply_migration_failure_rolls_back:
  assumes "txn c = None"
    and "fst (run m (user (db c))) = Some cause \<and> es = [Begin, Run (mid m), Rollback] \<or>
         fst (run m (user (db c))) = None \<and>
           es = [Begin, Run (mid m), InsertId (mid m), Rollback] \<and>
           (migrations_table (db c) = None \<and> cause = no_table \<or>
            mid m \<in> set (rows_of (db c)) \<and> cause = duplicate_key (mid m))"
  shows "apply_migration m c =
     (Inl (MigrationError (''Migration '' @ mid m @ '' failed: '' @ str cause) (Some cause)),
      \<lparr>db = db c, txn = None, trace = trace c @ es\<rparr>)"
  unfolding apply_failure_def [symmetric]
proof -
  obtain eo u where ru: "run m (user (db c)) = (eo, u)"
    by (cases "run m (user (db c))") auto
  have same: "c\<lparr>trace := trace c @ es\<rparr> = \<lparr>db = db c, txn = None, trace = trace c @ es\<rparr>"
    using assms(1) by (intro connection_eqI) simp_all
  show "apply_migration m c =
     (Inl (apply_failure (mid m) cause), \<lparr>db = db c, txn = None, trace = trace c @ es\<rparr>)"
  proof (cases eo)
    case (Some e)
    note raises = ru [unfolded Some]
    from assms(2) raises have "cause = e" "es = [Begin, Run (mid m), Rollback]"
      by auto
    with apply_migration_run_raises [OF assms(1) raises] same show ?thesis
      by simp
  next
    case None
    note completes = ru [unfolded None]
    from assms(2) completes
    have es: "es = [Begin, Run (mid m), InsertId (mid m), Rollback]"
      and why: "migrations_table (db c) = None \<and> cause = no_table \<or>
            mid m \<in> set (rows_of (db c)) \<and> cause = duplicate_key (mid m)"
      by auto
    show ?thesis
    proof (cases "migrations_table (db c)")
      case absent: None
      with why have "cause = no_table"
        by (auto simp: rows_of_def)
      with apply_migration_no_table [OF assms(1) completes absent] same es show ?thesis
        by simp
    next
      case (Some rows)
      with why have "mid m \<in> set rows" "cause = duplicate_key (mid m)"
        by (auto simp: rows_of_def)
      with apply_migration_duplicate [OF assms(1) completes Some] same es show ?thesis
        by simp
    qed
  qed
qed

theorem apply_migration_failure_rolls_back_witness:
  "txn store_ready = None \<and>
   fst (run create_twice (user (db store_ready))) =
     Some (CatalogException ''Table with name test_table already exists'') \<and>
   snd (run create_twice (user (db store_ready))) = [''test_table''] \<and>
   apply_migration create_twice store_ready =
     (Inl (MigrationError
        ''Migration 20240320000001 failed: Table with name test_table already exists''
        (Some (CatalogException ''Table with name test_table already exists''))),
      \<lparr>db = \<lparr>user = [], migrations_table = Some []\<rparr>, txn = None,
       trace = [Begin, Run ''20240320000001'', Rollback]\<rparr>) \<and>
   txn first_recorded = None \<and>
   run create_other (user (db first_recorded)) = (None, [''test1'', ''other'']) \<and>
   mid create_other \<in> set (rows_of (db first_recorded)) \<and>
   apply_migration create_other first_recorded =
     (Inl (MigrationError
        ''Migration 20240320000001 failed: Duplicate key 20240320000001 violates primary key constraint''
        (Some (ConstraintException
           ''Duplicate key 20240320000001 violates primary key constraint''))),
      \<lparr>db = \<lparr>user = [''test1''], migrations_table = Some [''20240320000001'']\<rparr>, txn = None,
       trace = [Begin, Run ''20240320000001'', InsertId ''20240320000001'', Rollback]\<rparr>) \<and>
   txn fresh_connection = None \<and>
   run create_test1 (user (db fresh_connection)) = (None, [''test1'']) \<and>
   migrations_table (db fresh_connection) = None \<and>
   apply_migration create_test1 fresh_connection =
     (Inl (MigrationError
        ''Migration 20240320000001 failed: Table with name _migrations does not exist''
        (Some (CatalogException ''Table with name _migrations does not exist''))),
      \<lparr>db = \<lparr>user = [], migrations_table = None\<rparr>, txn = None,
       trace = [Begin, Run ''20240320000001'', InsertId ''20240320000001'', Rollback]\<rparr>)"
proof -
  have a1: "txn store_ready = None"
    by (simp add: store_ready_def)
  have a2: "fst (run create_twice (user (db store_ready))) =
     Some (CatalogException ''Table with name test_table already exists'')"
    by (simp add: store_ready_def create_twice_def create_table_def)
  have a3: "snd (run create_twice (user (db store_ready))) = [''test_table'']"
    by (simp add: store_ready_def create_twice_def create_table_def)
  have a4: "apply_migration create_twice store_ready =
     (Inl (MigrationError
        ''Migration 20240320000001 failed: Table with name test_table already exists''
        (Some (CatalogException ''Table with name test_table already exists''))),
      \<lparr>db = \<lparr>user = [], migrations_table = Some []\<rparr>, txn = None,
       trace = [Begin, Run ''20240320000001'', Rollback]\<rparr>)"
    using apply_migration_failure_rolls_back [of store_ready create_twice
        "CatalogException ''Table with name test_table already exists''"
        "[Begin, Run (mid create_twice), Rollback]"] a1 a2
    by (simp add: example_ids) (simp add: store_ready_def)
  have b1: "txn first_recorded = None"
    by (simp add: first_recorded_def)
  have b2: "run create_other (user (db first_recorded)) = (None, [''test1'', ''other''])"
    by (simp add: first_recorded_def create_other_def create_table_def)
  have b3: "mid create_other \<in> set (rows_of (db first_recorded))"
    by (simp add: first_recorded_def create_other_def rows_of_def)
  have b4: "apply_migration create_other first_recorded =
     (Inl (MigrationError
        ''Migration 20240320000001 failed: Duplicate key 20240320000001 violates primary key constraint''
        (Some (ConstraintException
           ''Duplicate key 20240320000001 violates primary key constraint''))),
      \<lparr>db = \<lparr>user = [''test1''], migrations_table = Some [''20240320000001'']\<rparr>, txn = None,
       trace = [Begin, Run ''20240320000001'', InsertId ''20240320000001'', Rollback]\<rparr>)"
    using apply_migration_failure_rolls_back [of first_recorded create_other
        "duplicate_key (mid create_other)"
        "[Begin, Run (mid create_other), InsertId (mid create_other), Rollback]"] b1 b2 b3
    by (simp add: example_ids duplicate_key_def) (simp add: first_recorded_def)
  have c1: "txn fresh_connection = None"
    by (rule fresh_connection_simps)
  have c2: "run create_test1 (user (db fresh_connection)) = (None, [''test1''])"
    by (simp add: fresh_connection_simps create_test1_def create_table_def)
  have c3: "migrations_table (db fresh_connection) = None"
    by (simp add: fresh_connection_def)
  have c4: "apply_migration create_test1 fresh_connection =
     (Inl (MigrationError
        ''Migration 20240320000001 failed: Table with name _migrations does not exist''
        (Some (CatalogException ''Table with name _migrations does not exist''))),
      \<lparr>db = \<lparr>user = [], migrations_table = None\<rparr>, txn = None,
       trace = [Begin, Run ''20240320000001'', InsertId ''20240320000001'', Rollback]\<rparr>)"
    using apply_migration_failure_rolls_back [of fresh_connection create_test1 no_table
        "[Begin, Run (mid create_test1), InsertId (mid create_test1), Rollback]"] c1 c2 c3
    by (simp add: example_ids no_table_def) (simp add: fresh_connection_def)
  show ?thesis
    by (intro conjI a1 a2 a3 a4 b1 b2 b3 b4 c1 c2 c3 c4)
qed

text \<open>
  C6. A successful \<^verbatim>\<open>apply_migration\<close> has made exactly the calls begin, the
  procedure, the insert of the id, commit, in this order, on a connection that had no
  transaction open. The procedure completed, the id was not yet recorded, and the database
  after the commit holds both the effects of the procedure and the new row; no transaction
  is left open.
\<close>

theorem apply_migration_protocol:
  assumes "apply_migration m c = (Inr (), c')"
  shows "txn c = None \<and> fst (run m (user (db c))) = None \<and>
         trace c' = trace c @ [Begin, Run (mid m), InsertId (mid m), Commit] \<and>
         (\<exists>rows. migrations_table (db c) = Some rows \<and> mid m \<notin> set rows \<and>
            db c' = \<lparr>user = snd (run m (user (db c))),
                     migrations_table = Some (rows @ [mid m])\<rparr>) \<and>
         txn c' = None"
proof (cases "txn c")
  case (Some s)
  with assms show ?thesis
    by (auto simp: apply_migration_in_transaction)
next
  case auto: None
  obtain eo u where ru: "run m (user (db c)) = (eo, u)"
    by (cases "run m (user (db c))") auto
  show ?thesis
  proof (cases eo)
    case (Some e)
    with ru assms show ?thesis
      by (auto simp: apply_migration_run_raises [OF auto])
  next
    case None
    note completes = ru [unfolded None]
    show ?thesis
    proof (cases "migrations_table (db c)")
      case absent: None
      from assms show ?thesis
        unfolding apply_migration_no_table [OF auto completes absent] by auto
    next
      case (Some rows)
      show ?thesis
      proof (cases "mid m \<in> set rows")
        case True
        from assms show ?thesis
          unfolding apply_migration_duplicate [OF auto completes Some True] by auto
      next
        case False
        from assms show ?thesis
          unfolding apply_migration_commits [OF auto completes Some False]
          using auto completes Some False by (auto simp: applied_trace_def)
      qed
    qed
  qed
qed

theorem apply_migration_protocol_witness:
  "apply_migration create_test1 store_ready =
     (Inr (), \<lparr>db = \<lparr>user = [''test1''], migrations_table = Some [''20240320000001'']\<rparr>,
               txn = None,
               trace = [Begin, Run ''20240320000001'', InsertId ''20240320000001'', Commit]\<rparr>) \<and>
   trace \<lparr>db = \<lparr>user = [''test1''], migrations_table = Some [''20240320000001'']\<rparr>,
               txn = None,
               trace = [Begin, Run ''20240320000001'', InsertId ''20240320000001'', Commit]\<rparr> =
      trace store_ready @ [Begin, Run (mid create_test1), InsertId (mid create_test1), Commit]"
proof -
  have h: "apply_migration create_test1 store_ready =
     (Inr (), \<lparr>db = \<lparr>user = [''test1''], migrations_table = Some [''20240320000001'']\<rparr>,
               txn = None,
               trace = [Begin, Run ''20240320000001'', InsertId ''20240320000001'', Commit]\<rparr>)"
    by (simp add: apply_migration_def con_begin_def call_run_def execute_insert_id_def
        con_commit_def called_def store_ready_def create_test1_def create_table_def)
  from apply_migration_protocol [OF h] h show ?thesis
    by blast
qed

section \<open>Claims about the record store and the ordering check\<close>

lemma init_migrations_table_result:
  "init_migrations_table c =
     (Inr (), c\<lparr>db := (db c)\<lparr>migrations_table := Some (rows_of (db c))\<rparr>,
                trace := trace c @ [CreateTableIfNotExists]\<rparr>)"
  by (simp add: init_migrations_table_def execute_create_table_def called_def rows_of_def
      split: option.splits)

lemma init_times_state:
  "db (init_times (Suc n) c) = (db c)\<lparr>migrations_table := Some (rows_of (db c))\<rparr> \<and>
   txn (init_times (Suc n) c) = txn c"
  by (induction n) (simp_all add: init_migrations_table_result rows_of_def)

text \<open>
  C8. \<^verbatim>\<open>init_migrations_table\<close> never raises, however often it has been called
  before. After one call or more the table exists and holds the rows it held before the
  first call (none, when that call created it); the migrations' own state and the transaction
  state are untouched. A second call leaves the database as the first call left it.
\<close>

theorem init_migrations_table_idempotent:
  "fst (init_migrations_table (init_times n c)) = Inr () \<and>
   db (init_times (Suc n) c) = (db c)\<lparr>migrations_table := Some (rows_of (db c))\<rparr> \<and>
   txn (init_times (Suc n) c) = txn c \<and>
   db (snd (init_migrations_table (snd (init_migrations_table c)))) =
     db (snd (init_migrations_table c))"
proof -
  have "fst (init_migrations_table (init_times n c)) = Inr ()"
    by (simp add: init_migrations_table_result)
  moreover have "db (snd (init_migrations_table (snd (init_migrations_table c)))) =
     db (snd (init_migrations_table c))"
    by (simp add: init_migrations_table_result rows_of_def)
  ultimately show ?thesis
    using init_times_state [of n c] by blast
qed

text \<open>
  C10. \<^verbatim>\<open>get_applied_migrations\<close> changes neither the database nor the
  transaction state. When the table exists it returns its ids sorted ascending in the
  lexicographic order of strings, each row once; when it does not, the query raises.
\<close>

theorem get_applied_migrations_sorted_read_only:
  "db (snd (get_applied_migrations c)) = db c \<and>
   txn (snd (get_applied_migrations c)) = txn c \<and>
   (case migrations_table (db c) of
      None \<Rightarrow> fst (get_applied_migrations c) = Inl no_table
    | Some rows \<Rightarrow> fst (get_applied_migrations c) = Inr (sort rows) \<and>
        sorted (sort rows) \<and> set (sort rows) = set rows \<and> length (sort rows) = length rows)"
  by (simp add: get_applied_migrations_def execute_select_ids_def called_def no_table_def
      split: option.splits)

lemma validate_migration_order_cases:
  "validate_migration_order ms applied =
     (if applied = {} then Inr ()
      else if \<exists>m\<in>set ms. mid m \<notin> applied \<and> mid m < Max applied
           then Inl (order_violation (Max applied)) else Inr ())"
proof -
  have "list_ex (\<lambda>m. mid m < Max applied) (filter (\<lambda>m. mid m \<notin> applied) ms) =
      (\<exists>m\<in>set ms. mid m \<notin> applied \<and> mid m < Max applied)"
    unfolding list_ex_iff by auto
  then show ?thesis
    by (simp only: validate_migration_order_def Let_def order_violation_def)
qed

text \<open>
  C3. \<^verbatim>\<open>validate_migration_order\<close> accepts every collection when the applied
  set is empty. For a finite, non-empty applied set, \<open>Max applied\<close> is its greatest id, and
  the check raises exactly when some migration of the collection whose id is not in the set
  has an id below that maximum; otherwise it returns.
\<close>

theorem validate_migration_order_policy:
  "validate_migration_order ms {} = Inr () \<and>
   (finite applied \<longrightarrow> applied \<noteq> {} \<longrightarrow>
      Max applied \<in> applied \<and> (\<forall>a\<in>applied. a \<le> Max applied) \<and>
      validate_migration_order ms applied =
        (if \<exists>m\<in>set ms. mid m \<notin> applied \<and> mid m < Max applied
         then Inl (MigrationError
                (''Found new migration(s) with ID lower than latest applied migration ''
                   @ Max applied) None)
         else Inr ()))"
  unfolding order_violation_def [symmetric]
  by (simp add: validate_migration_order_cases)

theorem validate_migration_order_policy_witness:
  "finite {''20240320000002''} \<and> {''20240320000002''} \<noteq> {} \<and>
   Max {''20240320000002''} = ''20240320000002'' \<and>
   validate_migration_order [create_test1, raise_exception] {''20240320000002''} =
     Inl (MigrationError
       ''Found new migration(s) with ID lower than latest applied migration 20240320000002''
       None) \<and>
   validate_migration_order [raise_exception, create_test3] {''20240320000002''} = Inr ()"
  using validate_migration_order_policy [of "[create_test1, raise_exception]" "{''20240320000002''}"]
    validate_migration_order_policy [of "[raise_exception, create_test3]" "{''20240320000002''}"]
  by (simp add: create_test1_def raise_exception_def create_test3_def)

section \<open>Claims about a whole run\<close>

text \<open>
  C7. When a migration that is not yet recorded has an id below the greatest recorded id,
  \<^verbatim>\<open>run_migrations\<close> raises its \<open>MigrationError\<close> with the ordering violation
  as the cause. The connection it leaves differs from the one it found only in the trace,
  which shows the two reads and nothing else: no transaction was begun, no procedure invoked,
  no row inserted.
\<close>

theorem run_migrations_rejects_out_of_order:
  assumes "rows_of (db c) \<noteq> []" and "m \<in> set ms"
    and "mid m \<notin> set (rows_of (db c))" and "mid m < Max (set (rows_of (db c)))"
  shows "run_migrations ms c =
     (Inl (MigrationError ''Failed to run migrations''
        (Some (MigrationError
           (''Found new migration(s) with ID lower than latest applied migration ''
              @ Max (set (rows_of (db c)))) None))),
      c\<lparr>trace := trace c @ [CreateTableIfNotExists, SelectIds]\<rparr>)"
  unfolding order_violation_def [symmetric] run_failure_def [symmetric]
proof -
  have "validate_migration_order ms (set (rows_of (db c))) =
      Inl (order_violation (Max (set (rows_of (db c)))))"
    using assms by (auto simp: validate_migration_order_cases)
  then show "run_migrations ms c =
     (Inl (run_failure (order_violation (Max (set (rows_of (db c)))))),
      c\<lparr>trace := trace c @ [CreateTableIfNotExists, SelectIds]\<rparr>)"
    by (rule run_migrations_rejected)
qed

theorem run_migrations_rejects_out_of_order_witness:
  "rows_of (db second_recorded) \<noteq> [] \<and> create_test1 \<in> set [create_test1, create_test2] \<and>
   mid create_test1 \<notin> set (rows_of (db second_recorded)) \<and>
   mid create_test1 < Max (set (rows_of (db second_recorded))) \<and>
   run_migrations [create_test1, create_test2] second_recorded =
     (Inl (MigrationError ''Failed to run migrations''
        (Some (MigrationError
           ''Found new migration(s) with ID lower than latest applied migration 20240320000002''
           None))),
      second_recorded\<lparr>trace := [CreateTableIfNotExists, SelectIds]\<rparr>)"
proof -
  have h1: "rows_of (db second_recorded) \<noteq> []"
    by (simp add: second_recorded_def rows_of_def)
  have h2: "create_test1 \<in> set [create_test1, create_test2]"
    by simp
  have h3: "mid create_test1 \<notin> set (rows_of (db second_recorded))"
    by (simp add: second_recorded_def rows_of_def create_test1_def)
  have h4: "mid create_test1 < Max (set (rows_of (db second_recorded)))"
    by (simp add: second_recorded_def rows_of_def create_test1_def)
  have m: "Max (set (rows_of (db second_recorded))) = ''20240320000002''"
    by (simp add: second_recorded_def rows_of_def)
  have t: "trace second_recorded = []"
    by (simp add: second_recorded_def)
  from run_migrations_rejects_out_of_order [OF h1 h2 h3 h4] h1 h2 h3 h4 show ?thesis
    unfolding m t by simp
qed

text \<open>
  C2. On a connection in autocommit mode a run whose ordering check raises invokes nothing.
  When the check passes, the run goes through the whole collection sorted ascending by id
  with the recorded ids left out. It applies a leading part \<open>good\<close> of these, each in its
  own committed transaction and in this order, and either none is left and the run returns,
  or it stops at the next one, whose procedure raises or whose insert is refused. So every
  migration that is not recorded is applied unless the run has stopped before it, the ids of
  the procedures invoked ascend, those committed ascend strictly, and no procedure is
  invoked under a recorded id.
\<close>

theorem run_migrations_ascending_skips_applied:
  assumes "txn c = None"
  shows "case validate_migration_order ms (set (rows_of (db c))) of
     Inl e \<Rightarrow>
       run_migrations ms c =
         (Inl (run_failure e), c\<lparr>trace := trace c @ [CreateTableIfNotExists, SelectIds]\<rparr>)
   | Inr _ \<Rightarrow>
      (\<exists>good rest es r c'.
       run_migrations ms c = (r, c') \<and>
       filter (\<lambda>m. mid m \<notin> set (rows_of (db c))) (sort_key mid ms) = good @ rest \<and>
       all_complete good (user (db c)) \<and>
       db c' = \<lparr>user = effects good (user (db c)),
                migrations_table = Some (rows_of (db c) @ map mid good)\<rparr> \<and>
       txn c' = None \<and>
       trace c' = trace c @ [CreateTableIfNotExists, SelectIds]
                    @ concat (map applied_trace good) @ es \<and>
       invoked ([CreateTableIfNotExists, SelectIds] @ concat (map applied_trace good) @ es)
         = map mid (good @ take 1 rest) \<and>
       committed ([CreateTableIfNotExists, SelectIds] @ concat (map applied_trace good) @ es)
         = map mid good \<and>
       sorted (map mid (good @ rest)) \<and> sorted_wrt (<) (map mid good) \<and>
       set (map mid (good @ rest)) \<inter> set (rows_of (db c)) = {} \<and>
       (case rest of
          [] \<Rightarrow> r = Inr () \<and> es = []
        | m # later \<Rightarrow> \<exists>cause. r = Inl (run_failure (apply_failure (mid m) cause)) \<and>
            stopped m (effects good (user (db c))) (rows_of (db c) @ map mid good) cause es))"
proof (cases "validate_migration_order ms (set (rows_of (db c)))")
  case (Inl e)
  then show ?thesis
    by (simp add: run_migrations_rejected)
next
  case (Inr u)
  then have passed: "validate_migration_order ms (set (rows_of (db c))) = Inr ()"
    by simp
  let ?pend = "pending (set (rows_of (db c))) (sort_key mid ms)"
  obtain r c' where rc: "run_migrations ms c = (r, c')"
    by (cases "run_migrations ms c") auto
  from run_migrations_outcome [OF assms passed rc] obtain good rest es where
    p: "?pend = good @ rest"
    and ac: "all_complete good (user (db c))"
    and d: "distinct (map mid good)"
    and tx: "txn c' = None"
    and db': "db c' = \<lparr>user = effects good (user (db c)),
               migrations_table = Some (rows_of (db c) @ map mid good)\<rparr>"
    and tr: "trace c' = trace c @ [CreateTableIfNotExists, SelectIds]
                   @ concat (map applied_trace good) @ es"
    and rs: "(case rest of
         [] \<Rightarrow> r = Inr () \<and> es = []
       | m # later \<Rightarrow> \<exists>cause. r = Inl (run_failure (apply_failure (mid m) cause)) \<and>
           stopped m (effects good (user (db c))) (rows_of (db c) @ map mid good) cause es)"
    by blast
  have fl: "filter (\<lambda>m. mid m \<notin> set (rows_of (db c))) (sort_key mid ms) = good @ rest"
    using p by (simp add: pending_def)
  have ies: "invoked es = map mid (take 1 rest)" and ces: "committed es = []"
    using rs by (cases rest; auto dest: stopped_trace)+
  have inv: "invoked ([CreateTableIfNotExists, SelectIds] @ concat (map applied_trace good) @ es)
       = map mid (good @ take 1 rest)"
    by (simp add: invoked_append invoked_applied_traces ies)
  have com: "committed ([CreateTableIfNotExists, SelectIds] @ concat (map applied_trace good) @ es)
       = map mid good"
    by (simp add: committed_applied_traces ces)
  have s1: "sorted (map mid (good @ rest))"
    using sorted_pending [of "set (rows_of (db c))" ms] unfolding p .
  then have "sorted (map mid good)"
    by (simp add: sorted_append)
  with d have s2: "sorted_wrt (<) (map mid good)"
    by (simp add: strict_sorted_iff)
  have "\<forall>m\<in>set (good @ rest). mid m \<notin> set (rows_of (db c))"
    unfolding p [symmetric] by (auto dest: pending_not_applied)
  then have dj: "set (map mid (good @ rest)) \<inter> set (rows_of (db c)) = {}"
    by auto
  have "\<exists>good rest es r c'.
       run_migrations ms c = (r, c') \<and>
       filter (\<lambda>m. mid m \<notin> set (rows_of (db c))) (sort_key mid ms) = good @ rest \<and>
       all_complete good (user (db c)) \<and>
       db c' = \<lparr>user = effects good (user (db c)),
                migrations_table = Some (rows_of (db c) @ map mid good)\<rparr> \<and>
       txn c' = None \<and>
       trace c' = trace c @ [CreateTableIfNotExists, SelectIds]
                    @ concat (map applied_trace good) @ es \<and>
       invoked ([CreateTableIfNotExists, SelectIds] @ concat (map applied_trace good) @ es)
         = map mid (good @ take 1 rest) \<and>
       committed ([CreateTableIfNotExists, SelectIds] @ concat (map applied_trace good) @ es)
         = map mid good \<and>
       sorted (map mid (good @ rest)) \<and> sorted_wrt (<) (map mid good) \<and>
       set (map mid (good @ rest)) \<inter> set (rows_of (db c)) = {} \<and>
       (case rest of
          [] \<Rightarrow> r = Inr () \<and> es = []
        | m # later \<Rightarrow> \<exists>cause. r = Inl (run_failure (apply_failure (mid m) cause)) \<and>
            stopped m (effects good (user (db c))) (rows_of (db c) @ map mid good) cause es)"
    apply (rule exI [of _ good])
    apply (rule exI [of _ rest])
    apply (rule exI [of _ es])
    apply (rule exI [of _ r])
    apply (rule exI [of _ c'])
    using rc fl ac db' tx tr inv com s1 s2 dj rs by (intro conjI)
  then show ?thesis
    by (simp only: passed sum.case)
qed


theorem run_migrations_ascending_skips_applied_witness:
  "txn second_recorded = None \<and>
   validate_migration_order [create_test3, create_test2] (set (rows_of (db second_recorded)))
     = Inr () \<and>
   run_migrations [create_test3, create_test2] second_recorded =
     (Inr (),
      \<lparr>db = \<lparr>user = [''test2'', ''test3''],
              migrations_table = Some [''20240320000002'', ''20240320000003'']\<rparr>,
       txn = None,
       trace = [CreateTableIfNotExists, SelectIds,
                Begin, Run ''20240320000003'', InsertId ''20240320000003'', Commit]\<rparr>) \<and>
   run_migrations [create_test3, create_test1] fresh_connection =
     (Inr (),
      \<lparr>db = \<lparr>user = [''test1'', ''test3''],
              migrations_table = Some [''20240320000001'', ''20240320000003'']\<rparr>,
       txn = None,
       trace = [CreateTableIfNotExists, SelectIds,
                Begin, Run ''20240320000001'', InsertId ''20240320000001'', Commit,
                Begin, Run ''20240320000003'', InsertId ''20240320000003'', Commit]\<rparr>) \<and>
   (\<exists>good rest es r c'.
     run_migrations [create_test3, create_test2] second_recorded = (r, c') \<and>
     filter (\<lambda>m. mid m \<notin> set (rows_of (db second_recorded)))
       (sort_key mid [create_test3, create_test2]) = good @ rest \<and>
     all_complete good (user (db second_recorded)) \<and>
     db c' = \<lparr>user = effects good (user (db second_recorded)),
              migrations_table = Some (rows_of (db second_recorded) @ map mid good)\<rparr> \<and>
     txn c' = None \<and>
     trace c' = trace second_recorded @ [CreateTableIfNotExists, SelectIds]
                  @ concat (map applied_trace good) @ es \<and>
     invoked ([CreateTableIfNotExists, SelectIds] @ concat (map applied_trace good) @ es)
       = map mid (good @ take 1 rest) \<and>
     committed ([CreateTableIfNotExists, SelectIds] @ concat (map applied_trace good) @ es)
       = map mid good \<and>
     sorted (map mid (good @ rest)) \<and> sorted_wrt (<) (map mid good) \<and>
     set (map mid (good @ rest)) \<inter> set (rows_of (db second_recorded)) = {} \<and>
     (case rest of
        [] \<Rightarrow> r = Inr () \<and> es = []
      | m # later \<Rightarrow> \<exists>cause. r = Inl (run_failure (apply_failure (mid m) cause)) \<and>
          stopped m (effects good (user (db second_recorded)))
            (rows_of (db second_recorded) @ map mid good) cause es))"
proof -
  have h1: "txn second_recorded = None"
    by (simp add: second_recorded_def)
  have h2: "validate_migration_order [create_test3, create_test2]
      (set (rows_of (db second_recorded))) = Inr ()"
    by (simp add: validate_migration_order_def second_recorded_def rows_of_def example_ids)
  have v1: "run_migrations [create_test3, create_test2] second_recorded =
     (Inr (),
      \<lparr>db = \<lparr>user = [''test2'', ''test3''],
              migrations_table = Some [''20240320000002'', ''20240320000003'']\<rparr>,
       txn = None,
       trace = [CreateTableIfNotExists, SelectIds,
                Begin, Run ''20240320000003'', InsertId ''20240320000003'', Commit]\<rparr>)"
    by code_simp
  have v2: "run_migrations [create_test3, create_test1] fresh_connection =
     (Inr (),
      \<lparr>db = \<lparr>user = [''test1'', ''test3''],
              migrations_table = Some [''20240320000001'', ''20240320000003'']\<rparr>,
       txn = None,
       trace = [CreateTableIfNotExists, SelectIds,
                Begin, Run ''20240320000001'', InsertId ''20240320000001'', Commit,
                Begin, Run ''20240320000003'', InsertId ''20240320000003'', Commit]\<rparr>)"
    by code_simp
  from run_migrations_ascending_skips_applied [OF h1, of "[create_test3, create_test2]"]
  have "\<exists>good rest es r c'.
     run_migrations [create_test3, create_test2] second_recorded = (r, c') \<and>
     filter (\<lambda>m. mid m \<notin> set (rows_of (db second_recorded)))
       (sort_key mid [create_test3, create_test2]) = good @ rest \<and>
     all_complete good (user (db second_recorded)) \<and>
     db c' = \<lparr>user = effects good (user (db second_recorded)),
              migrations_table = Some (rows_of (db second_recorded) @ map mid good)\<rparr> \<and>
     txn c' = None \<and>
     trace c' = trace second_recorded @ [CreateTableIfNotExists, SelectIds]
                  @ concat (map applied_trace good) @ es \<and>
     invoked ([CreateTableIfNotExists, SelectIds] @ concat (map applied_trace good) @ es)
       = map mid (good @ take 1 rest) \<and>
     committed ([CreateTableIfNotExists, SelectIds] @ concat (map applied_trace good) @ es)
       = map mid good \<and>
     sorted (map mid (good @ rest)) \<and> sorted_wrt (<) (map mid good) \<and>
     set (map mid (good @ rest)) \<inter> set (rows_of (db second_recorded)) = {} \<and>
     (case rest of
        [] \<Rightarrow> r = Inr () \<and> es = []
      | m # later \<Rightarrow> \<exists>cause. r = Inl (run_failure (apply_failure (mid m) cause)) \<and>
          stopped m (effects good (user (db second_recorded)))
            (rows_of (db second_recorded) @ map mid good) cause es)"
    by (simp only: h2 sum.case)
  then show ?thesis
    by (intro conjI h1 h2 v1 v2)
qed

text \<open>
  C4. Let the ordering check pass on a connection in autocommit mode, and let the pending
  migrations in ascending order be \<open>good\<close>, then \<open>m\<close>, then \<open>later\<close>, where the
  procedures of \<open>good\<close> complete one after the other under ids that differ and \<open>m\<close>
  stops: its procedure raises \<open>cause\<close>, or its insert is refused. Then the run raises
  \<open>MigrationError\<close> caused by the \<open>MigrationError\<close> of \<open>m\<close>, itself caused by
  \<open>cause\<close>. The database it leaves holds the effects and the rows of \<open>good\<close> and nothing
  of \<open>m\<close>, with no transaction open; the procedures invoked are those of \<open>good\<close> and
  \<open>m\<close>, none of \<open>later\<close>, and the commits are those of \<open>good\<close>.
\<close>

theorem run_migrations_halts_at_first_failure:
  assumes "txn c = None"
    and "validate_migration_order ms (set (rows_of (db c))) = Inr ()"
    and "pending (set (rows_of (db c))) (sort_key mid ms) = good @ m # later"
    and "all_complete good (user (db c))" and "distinct (map mid good)"
    and "stopped m (effects good (user (db c))) (rows_of (db c) @ map mid good) cause es"
  shows "run_migrations ms c =
      (Inl (MigrationError ''Failed to run migrations''
         (Some (MigrationError (''Migration '' @ mid m @ '' failed: '' @ str cause)
            (Some cause)))),
       \<lparr>db = \<lparr>user = effects good (user (db c)),
               migrations_table = Some (rows_of (db c) @ map mid good)\<rparr>,
        txn = None,
        trace = trace c @ [CreateTableIfNotExists, SelectIds]
                  @ concat (map applied_trace good) @ es\<rparr>) \<and>
     invoked ([CreateTableIfNotExists, SelectIds] @ concat (map applied_trace good) @ es)
       = map mid good @ [mid m] \<and>
     committed ([CreateTableIfNotExists, SelectIds] @ concat (map applied_trace good) @ es)
       = map mid good"
  unfolding apply_failure_def [symmetric] run_failure_def [symmetric]
proof (intro conjI)
  show "run_migrations ms c =
      (Inl (run_failure (apply_failure (mid m) cause)),
       \<lparr>db = \<lparr>user = effects good (user (db c)),
               migrations_table = Some (rows_of (db c) @ map mid good)\<rparr>,
        txn = None,
        trace = trace c @ [CreateTableIfNotExists, SelectIds]
                  @ concat (map applied_trace good) @ es\<rparr>)"
    by (rule run_migrations_stops [OF assms])
next
  show "invoked ([CreateTableIfNotExists, SelectIds] @ concat (map applied_trace good) @ es)
       = map mid good @ [mid m]"
    using stopped_trace(1) [OF assms(6)]
    by (simp add: invoked_append invoked_applied_traces)
next
  show "committed ([CreateTableIfNotExists, SelectIds] @ concat (map applied_trace good) @ es)
       = map mid good"
    using stopped_trace(2) [OF assms(6)]
    by (simp add: committed_applied_traces)
qed

theorem run_migrations_halts_at_first_failure_witness:
  "txn fresh_connection = None \<and>
   validate_migration_order [create_test1, raise_exception, create_test3]
     (set (rows_of (db fresh_connection))) = Inr () \<and>
   pending (set (rows_of (db fresh_connection)))
     (sort_key mid [create_test1, raise_exception, create_test3]) =
     [create_test1] @ raise_exception # [create_test3] \<and>
   all_complete [create_test1] (user (db fresh_connection)) \<and>
   distinct (map mid [create_test1]) \<and>
   stopped raise_exception (effects [create_test1] (user (db fresh_connection)))
     (rows_of (db fresh_connection) @ map mid [create_test1])
     (PyException ''Migration failed'') [Begin, Run ''20240320000002'', Rollback] \<and>
   run_migrations [create_test1, raise_exception, create_test3] fresh_connection =
     (Inl (MigrationError ''Failed to run migrations''
        (Some (MigrationError ''Migration 20240320000002 failed: Migration failed''
           (Some (PyException ''Migration failed''))))),
      \<lparr>db = \<lparr>user = [''test1''], migrations_table = Some [''20240320000001'']\<rparr>,
       txn = None,
       trace = [CreateTableIfNotExists, SelectIds,
                Begin, Run ''20240320000001'', InsertId ''20240320000001'', Commit,
                Begin, Run ''20240320000002'', Rollback]\<rparr>)"
proof -
  have h1: "txn fresh_connection = None"
    by (rule fresh_connection_simps)
  have h2: "validate_migration_order [create_test1, raise_exception, create_test3]
     (set (rows_of (db fresh_connection))) = Inr ()"
    by (simp add: fresh_connection_simps validate_migration_order_def)
  have h3: "pending (set (rows_of (db fresh_connection)))
     (sort_key mid [create_test1, raise_exception, create_test3]) =
     [create_test1] @ raise_exception # [create_test3]"
    by (simp add: fresh_connection_simps pending_def example_ids)
  have h4: "all_complete [create_test1] (user (db fresh_connection))"
    by (simp add: fresh_connection_simps create_test1_def create_table_def)
  have h5: "distinct (map mid [create_test1])"
    by simp
  have h6: "stopped raise_exception (effects [create_test1] (user (db fresh_connection)))
     (rows_of (db fresh_connection) @ map mid [create_test1])
     (PyException ''Migration failed'') [Begin, Run ''20240320000002'', Rollback]"
    by (simp add: stopped_def raise_exception_def)
  have e: "effects [create_test1] [] = [''test1'']"
    by (simp add: effects_def create_test1_def create_table_def)
  from run_migrations_halts_at_first_failure [OF h1 h2 h3 h4 h5 h6]
  have "run_migrations [create_test1, raise_exception, create_test3] fresh_connection =
     (Inl (MigrationError ''Failed to run migrations''
        (Some (MigrationError ''Migration 20240320000002 failed: Migration failed''
           (Some (PyException ''Migration failed''))))),
      \<lparr>db = \<lparr>user = [''test1''], migrations_table = Some [''20240320000001'']\<rparr>,
       txn = None,
       trace = [CreateTableIfNotExists, SelectIds,
                Begin, Run ''20240320000001'', InsertId ''20240320000001'', Commit,
                Begin, Run ''20240320000002'', Rollback]\<rparr>)"
    by (simp add: e fresh_connection_simps example_ids applied_trace_def)
  with h1 h2 h3 h4 h5 h6 show ?thesis
    by (intro conjI)
qed

text \<open>
  C9, as the claim states it, fails: when the first of two migrations with the same id
  raises in its procedure, it is not applied, the run stops there with the exception of the
  procedure as the cause, and no key is violated.
\<close>

theorem duplicate_id_first_raises_counterexample:
  "mid raise_exception = mid create_test2 \<and>
   set (rows_of (db fresh_connection)) = {} \<and>
   run_migrations [raise_exception, create_test2] fresh_connection =
     (Inl (MigrationError ''Failed to run migrations''
        (Some (MigrationError ''Migration 20240320000002 failed: Migration failed''
           (Some (PyException ''Migration failed''))))),
      \<lparr>db = \<lparr>user = [], migrations_table = Some []\<rparr>,
       txn = None,
       trace = [CreateTableIfNotExists, SelectIds,
                Begin, Run ''20240320000002'', Rollback]\<rparr>)"
  by code_simp

text \<open>
  C9, amended. Let the ordering check pass on a connection in autocommit mode, and let the
  pending migrations in ascending order be \<open>good\<close>, then \<open>second\<close>, then \<open>later\<close>, where
  the procedures of \<open>good\<close> complete one after the other under ids that differ, \<open>first\<close>
  is one of \<open>good\<close> and has the id of \<open>second\<close>, and the procedure of \<open>second\<close>
  completes. Then no check for duplicates precedes the applications: the run commits
  \<open>good\<close>, \<open>first\<close> among them, and stops at \<open>second\<close>, whose insert the primary key
  refuses. That application is rolled back, and the run raises \<open>MigrationError\<close> caused by
  the \<open>MigrationError\<close> of \<open>second\<close>, itself caused by the constraint violation. The
  sort being stable, \<open>first\<close> and \<open>second\<close> are the first two migrations of the collection
  with this id, in the order of the collection.
\<close>

theorem run_migrations_duplicate_id:
  assumes "txn c = None"
    and "validate_migration_order ms (set (rows_of (db c))) = Inr ()"
    and "pending (set (rows_of (db c))) (sort_key mid ms) = good @ second # later"
    and "all_complete good (user (db c))" and "distinct (map mid good)"
    and "first \<in> set good" and "mid first = mid second"
    and "fst (run second (effects good (user (db c)))) = None"
  shows "run_migrations ms c =
       (Inl (MigrationError ''Failed to run migrations''
          (Some (MigrationError
             (''Migration '' @ mid second @ '' failed: '' @ str (duplicate_key (mid second)))
             (Some (duplicate_key (mid second)))))),
        \<lparr>db = \<lparr>user = effects good (user (db c)),
                migrations_table = Some (rows_of (db c) @ map mid good)\<rparr>,
         txn = None,
         trace = trace c @ [CreateTableIfNotExists, SelectIds]
                   @ concat (map applied_trace good)
                   @ [Begin, Run (mid second), InsertId (mid second), Rollback]\<rparr>) \<and>
     (\<exists>others. filter (\<lambda>x. mid x = mid second) ms = first # second # others)"
  unfolding apply_failure_def [symmetric] run_failure_def [symmetric]
proof (intro conjI)
  let ?pend = "pending (set (rows_of (db c))) (sort_key mid ms)"
  from assms(6) have "mid first \<in> set (map mid good)"
    by simp
  then have "mid second \<in> set (rows_of (db c) @ map mid good)"
    unfolding assms(7) by simp
  with assms(8) have st: "stopped second (effects good (user (db c)))
      (rows_of (db c) @ map mid good) (duplicate_key (mid second))
      [Begin, Run (mid second), InsertId (mid second), Rollback]"
    by (simp add: stopped_def)
  show "run_migrations ms c =
       (Inl (run_failure (apply_failure (mid second) (duplicate_key (mid second)))),
        \<lparr>db = \<lparr>user = effects good (user (db c)),
                migrations_table = Some (rows_of (db c) @ map mid good)\<rparr>,
         txn = None,
         trace = trace c @ [CreateTableIfNotExists, SelectIds]
                   @ concat (map applied_trace good)
                   @ [Begin, Run (mid second), InsertId (mid second), Rollback]\<rparr>)"
    by (rule run_migrations_stops [OF assms(1-5) st])
  have "second \<in> set ?pend" unfolding assms(3) by simp
  then have mnew: "mid second \<notin> set (rows_of (db c))"
    by (auto dest: pending_not_applied)
  have "filter (\<lambda>x. mid x = mid second) ms = filter (\<lambda>x. mid x = mid second) ?pend"
    by (rule filter_pending_id [OF mnew, symmetric])
  also have "\<dots> = filter (\<lambda>x. mid x = mid first) good
      @ second # filter (\<lambda>x. mid x = mid second) later"
    unfolding assms(3) by (simp add: assms(7))
  also have "filter (\<lambda>x. mid x = mid first) good = [first]"
    by (rule filter_distinct_key [OF assms(5,6)])
  finally show "\<exists>others. filter (\<lambda>x. mid x = mid second) ms = first # second # others"
    by simp
qed

theorem run_migrations_duplicate_id_witness:
  "txn fresh_connection = None \<and>
   validate_migration_order [create_test1, create_other] (set (rows_of (db fresh_connection)))
     = Inr () \<and>
   pending (set (rows_of (db fresh_connection))) (sort_key mid [create_test1, create_other])
     = [create_test1] @ create_other # [] \<and>
   all_complete [create_test1] (user (db fresh_connection)) \<and>
   distinct (map mid [create_test1]) \<and>
   create_test1 \<in> set [create_test1] \<and>
   mid create_test1 = mid create_other \<and>
   run create_other (effects [create_test1] (user (db fresh_connection)))
     = (None, [''test1'', ''other'']) \<and>
   run_migrations [create_test1, create_other] fresh_connection =
     (Inl (MigrationError ''Failed to run migrations''
        (Some (MigrationError
           ''Migration 20240320000001 failed: Duplicate key 20240320000001 violates primary key constraint''
           (Some (ConstraintException
              ''Duplicate key 20240320000001 violates primary key constraint''))))),
      \<lparr>db = \<lparr>user = [''test1''], migrations_table = Some [''20240320000001'']\<rparr>,
       txn = None,
       trace = [CreateTableIfNotExists, SelectIds,
                Begin, Run ''20240320000001'', InsertId ''20240320000001'', Commit,
                Begin, Run ''20240320000001'', InsertId ''20240320000001'', Rollback]\<rparr>) \<and>
   (\<exists>others. filter (\<lambda>x. mid x = mid create_other) [create_test1, create_other]
      = create_test1 # create_other # others)"
proof -
  have h1: "txn fresh_connection = None"
    by (rule fresh_connection_simps)
  have h2: "validate_migration_order [create_test1, create_other]
      (set (rows_of (db fresh_connection))) = Inr ()"
    by (simp add: fresh_connection_simps validate_migration_order_def)
  have h3: "pending (set (rows_of (db fresh_connection)))
      (sort_key mid [create_test1, create_other]) = [create_test1] @ create_other # []"
    by (simp add: fresh_connection_simps pending_def example_ids)
  have h4: "all_complete [create_test1] (user (db fresh_connection))"
    by (simp add: fresh_connection_simps create_test1_def create_table_def)
  have h5: "distinct (map mid [create_test1])"
    by simp
  have h6: "create_test1 \<in> set [create_test1]"
    by simp
  have h7: "mid create_test1 = mid create_other"
    by (simp add: example_ids)
  have e: "effects [create_test1] [] = [''test1'']"
    by (simp add: effects_def create_test1_def create_table_def)
  have h8: "run create_other (effects [create_test1] (user (db fresh_connection)))
     = (None, [''test1'', ''other''])"
    by (simp add: fresh_connection_simps e) (simp add: create_other_def create_table_def)
  then have h8': "fst (run create_other (effects [create_test1] (user (db fresh_connection))))
     = None"
    by simp
  note result = run_migrations_duplicate_id [OF h1 h2 h3 h4 h5 h6 h7 h8']
  from result [THEN conjunct1]
  have v: "run_migrations [create_test1, create_other] fresh_connection =
     (Inl (MigrationError ''Failed to run migrations''
        (Some (MigrationError
           ''Migration 20240320000001 failed: Duplicate key 20240320000001 violates primary key constraint''
           (Some (ConstraintException
              ''Duplicate key 20240320000001 violates primary key constraint''))))),
      \<lparr>db = \<lparr>user = [''test1''], migrations_table = Some [''20240320000001'']\<rparr>,
       txn = None,
       trace = [CreateTableIfNotExists, SelectIds,
                Begin, Run ''20240320000001'', InsertId ''20240320000001'', Commit,
                Begin, Run ''20240320000001'', InsertId ''20240320000001'', Rollback]\<rparr>)"
    by (simp add: e fresh_connection_simps example_ids applied_trace_def duplicate_key_def)
  show ?thesis
    by (intro conjI h1 h2 h3 h4 h5 h6 h7 h8 v result [THEN conjunct2])
qed




end
